theory Spec2Isabelle
  imports
    Complex_Main
    "HOL-Library.Finite_Map"
    "HOL-Library.List_Lexorder"
    "HOL-Library.Char_ord"
begin

section \<open>Python values\<close>

text \<open>
  The optimizer of \<^verbatim>\<open>bbopt/optimizer.py\<close> works on dynamically typed Python values: the
  decoded data file, the parameter names, the rewards and the examples are all plain
  objects. They are modelled by one datatype. A dictionary is a finite map with string
  keys, so that equality of two dictionaries does not depend on the order of insertion,
  as in Python; a float is a real number (no NaN, no infinities, no rounding). A NumPy
  array is its shape with its entries in row-major order, a NumPy scalar is tagged with
  the kind of its dtype. Python's \<^verbatim>\<open>==\<close> and \<^verbatim>\<open>in\<close> on these values are HOL's equality and
  list membership.
\<close>

datatype npnum = NpBool bool | NpInt int | NpFloat real

datatype pyval =
    PNone
  | PBool bool
  | PInt int
  | PFloat real
  | PStr string
  | PList "pyval list"
  | PTuple "pyval list"
  | PDict "(string, pyval) fmap"
  | PNpScalar npnum
  | PNdarray "nat list" "npnum list"

datatype error =
    TypeError string
  | ValueError string
  | MatchError
  | AssertionError
  | AttributeError
  | KeyError
  | FileNotFoundError
  | LockException
  | DecodeError
  | EncodeError
  | BackendError

text \<open>
  Iterating over a value (\<^verbatim>\<open>for ex in examples\<close>, \<^verbatim>\<open>tuple(value)\<close>). A dictionary yields its
  keys (here in sorted order: a finite map keeps no insertion order), a string its
  characters, an array of rank \<open>n + 1\<close> its sub-arrays of rank \<open>n\<close>; a value that is not
  iterable raises \<^verbatim>\<open>TypeError\<close>.
\<close>

definition py_iter :: "pyval \<Rightarrow> error + pyval list" where
  "py_iter v =
     (case v of
        PList xs \<Rightarrow> Inr xs
      | PTuple xs \<Rightarrow> Inr xs
      | PDict m \<Rightarrow> Inr (map PStr (sorted_list_of_fset (fmdom m)))
      | PStr s \<Rightarrow> Inr (map (\<lambda>c. PStr [c]) s)
      | PNdarray sh ds \<Rightarrow>
          (case sh of
             [] \<Rightarrow> Inl (TypeError ''iteration over a 0-d array'')
           | [n] \<Rightarrow> Inr (map PNpScalar (take n ds))
           | n # sh' \<Rightarrow>
               Inr (map (\<lambda>i. PNdarray sh' (take (prod_list sh') (drop (i * prod_list sh') ds)))
                      [0..<n]))
      | _ \<Rightarrow> Inl (TypeError ''object is not iterable''))"

section \<open>The parts of the program outside \<^verbatim>\<open>optimizer.py\<close>\<close>

text \<open>
  A backend instance, as the optimizer sees it: its class, which \<^verbatim>\<open>is_serving\<close> tests, and
  its method \<^verbatim>\<open>param(name, func, *args, **kwargs)\<close>, which returns the value of a parameter
  or raises.
\<close>

datatype backend_class =
  ServingBackend | RandomBackend | MixtureBackend | SkoptBackend | HyperoptBackend

record backend =
  backend_class :: backend_class
  backend_param :: "string \<Rightarrow> string \<Rightarrow> pyval \<Rightarrow> pyval \<Rightarrow> error + pyval"

text \<open>
  The functions and constants that \<^verbatim>\<open>optimizer.py\<close> imports from the standard library and
  from the modules \<^verbatim>\<open>bbopt.util\<close>, \<^verbatim>\<open>bbopt.params\<close>, \<^verbatim>\<open>bbopt.registry\<close> and
  \<^verbatim>\<open>bbopt.constants\<close> are parameters of the model: the two codecs (\<^verbatim>\<open>json_dumps\<close> stands for
  \<^verbatim>\<open>json.dumps\<close> after \<^verbatim>\<open>json_serialize\<close>), the standardisation of the arguments of a
  parameter, the path functions (\<^verbatim>\<open>splitext\<close> is the root that \<^verbatim>\<open>os.path.splitext\<close> returns),
  the registries and the constants.
\<close>

record env =
  json_loads :: "string \<Rightarrow> error + pyval"
  json_dumps :: "pyval \<Rightarrow> error + string"
  pickle_loads :: "string \<Rightarrow> error + pyval"
  pickle_dumps :: "pyval \<Rightarrow> pyval \<Rightarrow> error + string"
  standardize_args :: "string \<Rightarrow> pyval list \<Rightarrow> error + pyval"
  standardize_kwargs :: "(string, pyval) fmap \<Rightarrow> error + pyval"
  norm_path :: "string \<Rightarrow> string"
  splitext :: "string \<Rightarrow> string"
  data_file_ext :: string
  default_protocol :: pyval
  alg_registry :: "pyval \<Rightarrow> error + (pyval \<times> (string, pyval) fmap)"
  init_backend ::
    "pyval \<Rightarrow> pyval list \<Rightarrow> pyval \<Rightarrow> pyval list \<Rightarrow> (string, pyval) fmap \<Rightarrow> error + backend"

section \<open>The file system, the locks and the clock\<close>

text \<open>
  The world outside the process: the contents of every file, the paths on which another
  process holds a lock for longer than \<^verbatim>\<open>lock_timeout\<close>, the clock that \<^verbatim>\<open>time.time()\<close> reads,
  and the trace of what the process has done to it, in order.
\<close>

datatype event =
    Create string
  | Acquire string
  | TimeRead real
  | ReadFile string
  | Truncate string
  | WriteFile string string
  | SyncFile string
  | Release string

record world =
  files :: "string \<Rightarrow> string option"
  locked :: "string set"
  clock :: real
  trace :: "event list"

definition emit :: "event \<Rightarrow> world \<Rightarrow> world" where
  "emit e w = w\<lparr>trace := trace w @ [e]\<rparr>"

text \<open>
  \<^verbatim>\<open>with Lock(path, mode, timeout=lock_timeout) as df\<close>: the modes \<^verbatim>\<open>rb\<close> and \<^verbatim>\<open>rb+\<close> open an
  existing file; a lock that another process keeps raises when the timeout has passed.
  Leaving the block, by its end or by an exception, releases the lock.
\<close>

definition acquire :: "string \<Rightarrow> world \<Rightarrow> error + world" where
  "acquire path w =
     (if files w path = None then Inl FileNotFoundError
      else if path \<in> locked w then Inl LockException
      else Inr (emit (Acquire path) w))"

definition release :: "string \<Rightarrow> world \<Rightarrow> world" where
  "release path w = emit (Release path) w"

definition read_file :: "string \<Rightarrow> world \<Rightarrow> string \<times> world" where
  "read_file path w =
     (case files w path of None \<Rightarrow> [] | Some c \<Rightarrow> c, emit (ReadFile path) w)"

definition write_file :: "string \<Rightarrow> string \<Rightarrow> world \<Rightarrow> world" where
  "write_file path raw w =
     emit (WriteFile path raw)
       (w\<lparr>files := (files w)(path \<mapsto> (case files w path of None \<Rightarrow> [] | Some c \<Rightarrow> c) @ raw)\<rparr>)"

text \<open>
  Modelled from the spec: \<^verbatim>\<open>bbopt.util.ensure_file\<close>, \<^verbatim>\<open>clear_file\<close> and \<^verbatim>\<open>sync_file\<close> are not
  among the sources. The spec has the load create an empty file if it is absent, and the
  commit truncate the file and flush and durably sync it before the lock is released.
\<close>

definition ensure_file :: "string \<Rightarrow> world \<Rightarrow> world" where
  "ensure_file path w =
     (if files w path = None then emit (Create path) (w\<lparr>files := (files w)(path \<mapsto> [])\<rparr>)
      else w)"

definition clear_file :: "string \<Rightarrow> world \<Rightarrow> world" where
  "clear_file path w = emit (Truncate path) (w\<lparr>files := (files w)(path \<mapsto> [])\<rparr>)"

definition sync_file :: "string \<Rightarrow> world \<Rightarrow> world" where
  "sync_file path w = emit (SyncFile path) w"

section \<open>The optimizer\<close>

text \<open>The attributes of a \<^verbatim>\<open>BlackBoxOptimizer\<close> (without their leading underscore; \<^verbatim>\<open>_file\<close> is \<open>file_path\<close>).\<close>

record optimizer =
  file_path :: string
  protocol :: pyval
  old_params :: pyval
  examples :: "pyval list"
  backend :: backend
  new_params :: "(string, pyval) fmap"
  current_example :: "(string, pyval) fmap"

definition use_json :: "optimizer \<Rightarrow> bool" where
  "use_json s = (protocol s = PStr ''json'')"

definition loads :: "env \<Rightarrow> optimizer \<Rightarrow> string \<Rightarrow> error + pyval" where
  "loads env s raw_contents =
     (if use_json s then json_loads env raw_contents else pickle_loads env raw_contents)"

definition dumps :: "env \<Rightarrow> optimizer \<Rightarrow> pyval \<Rightarrow> error + string" where
  "dumps env s unserialized_data =
     (if use_json s then json_dumps env unserialized_data
      else pickle_dumps env unserialized_data (protocol s))"

definition data_file :: "env \<Rightarrow> optimizer \<Rightarrow> string" where
  "data_file env s =
     splitext env (file_path s) @ data_file_ext env @ (if use_json s then ''.json'' else ''.pickle'')"

definition got_reward :: "optimizer \<Rightarrow> bool" where
  "got_reward s =
     (''loss'' |\<in>| fmdom (current_example s) \<or> ''gain'' |\<in>| fmdom (current_example s))"

definition is_serving :: "optimizer \<Rightarrow> bool" where
  "is_serving s = (backend_class (backend s) = ServingBackend)"

text \<open>
  \<^verbatim>\<open>run_backend\<close> and \<^verbatim>\<open>run\<close>: the registry builds the backend from the examples and the old
  parameters; a new run starts with no new parameter and the example \<^verbatim>\<open>{"values": {}}\<close>.
\<close>

definition run_backend ::
  "env \<Rightarrow> pyval \<Rightarrow> pyval list \<Rightarrow> (string, pyval) fmap \<Rightarrow> optimizer \<Rightarrow> (error + unit) \<times> optimizer"
where
  "run_backend env b args options s =
     (case init_backend env b (examples s) (old_params s) args options of
        Inl e \<Rightarrow> (Inl e, s)
      | Inr be \<Rightarrow>
          (Inr (),
           s\<lparr>backend := be,
             new_params := fmempty,
             current_example := fmupd ''values'' (PDict fmempty) fmempty\<rparr>))"

definition run :: "env \<Rightarrow> pyval \<Rightarrow> optimizer \<Rightarrow> (error + unit) \<times> optimizer" where
  "run env alg s =
     (case alg_registry env alg of
        Inl e \<Rightarrow> (Inl e, s)
      | Inr (b, options) \<Rightarrow> run_backend env b [] options s)"

text \<open>\<^verbatim>\<open>tell_examples\<close>: each example that is not yet in the list is appended to it.\<close>

fun tell_examples :: "pyval list \<Rightarrow> pyval list \<Rightarrow> pyval list" where
  "tell_examples exs [] = exs"
| "tell_examples exs (ex # rest) =
     tell_examples (if ex \<notin> set exs then exs @ [ex] else exs) rest"

text \<open>
  \<^verbatim>\<open>_load_from\<close>: nothing is done for empty contents. Otherwise the contents are decoded and
  matched against the pattern \<^verbatim>\<open>{"params": params, "examples": examples}\<close>: a mapping of
  length 2 that has both keys. A value that does not match raises; one that matches
  replaces the old parameters, and its examples are told.
\<close>

definition load_from :: "env \<Rightarrow> optimizer \<Rightarrow> string \<Rightarrow> (error + unit) \<times> optimizer" where
  "load_from env s contents =
     (if contents = [] then (Inr (), s)
      else
        (case loads env s contents of
           Inl e \<Rightarrow> (Inl e, s)
         | Inr match_to \<Rightarrow>
             (case match_to of
                PDict m \<Rightarrow>
                  (if fcard (fmdom m) = 2 then
                     (case (fmlookup m ''params'', fmlookup m ''examples'') of
                        (Some params, Some exs) \<Rightarrow>
                          (let s1 = s\<lparr>old_params := params\<rparr> in
                           case py_iter exs of
                             Inl e \<Rightarrow> (Inl e, s1)
                           | Inr l \<Rightarrow> (Inr (), s1\<lparr>examples := tell_examples (examples s1) l\<rparr>))
                      | _ \<Rightarrow> (Inl MatchError, s))
                   else (Inl MatchError, s))
              | _ \<Rightarrow> (Inl MatchError, s))))"

text \<open>
  The shape of a trial history in the words of the spec: a mapping with exactly the two
  keys \<^verbatim>\<open>params\<close> and \<^verbatim>\<open>examples\<close>.
\<close>

definition exactly_params_and_examples :: "pyval \<Rightarrow> bool" where
  "exactly_params_and_examples v =
     (case v of PDict m \<Rightarrow> fmdom m = {|''params'', ''examples''|} | _ \<Rightarrow> False)"

definition load_data :: "env \<Rightarrow> optimizer \<Rightarrow> world \<Rightarrow> (error + unit) \<times> optimizer \<times> world" where
  "load_data env s w =
     (let w1 = ensure_file (data_file env s) w in
      case acquire (data_file env s) w1 of
        Inl e \<Rightarrow> (Inl e, s, w1)
      | Inr w2 \<Rightarrow>
          (let (contents, w3) = read_file (data_file env s) w2;
               (r, s') = load_from env s contents
           in (r, s', release (data_file env s) w3)))"

text \<open>
  \<^verbatim>\<open>get_data\<close>: the new parameters are written over the old ones (\<^verbatim>\<open>dict.update\<close>, which only
  a dictionary has).
\<close>

definition get_data :: "optimizer \<Rightarrow> (error + pyval) \<times> optimizer" where
  "get_data s =
     (case old_params s of
        PDict old \<Rightarrow>
          (let s' = s\<lparr>old_params := PDict (old ++\<^sub>f new_params s)\<rparr> in
           (Inr (PDict (fmupd ''params'' (old_params s')
                         (fmupd ''examples'' (PList (examples s')) fmempty))), s'))
      | _ \<Rightarrow> (Inl AttributeError, s))"

text \<open>
  \<^verbatim>\<open>_save_data\<close>. Inside the lock: the timestamp is read from the clock and stored in the
  current example, the current example is told, the file is read and loaded, cleared,
  written with the encoded data and synced. An exception leaves the block through the
  release of the lock, with the attributes as they are at that point.
\<close>

definition save_data :: "env \<Rightarrow> optimizer \<Rightarrow> world \<Rightarrow> (error + unit) \<times> optimizer \<times> world" where
  "save_data env s w =
     (if ''timestamp'' |\<in>| fmdom (current_example s) then (Inl AssertionError, s, w)
      else
        (let df = data_file env s in
         case acquire df w of
           Inl e \<Rightarrow> (Inl e, s, w)
         | Inr w1 \<Rightarrow>
             (let w2 = emit (TimeRead (clock w1)) w1;
                  s1 = s\<lparr>current_example :=
                          fmupd ''timestamp'' (PFloat (clock w1)) (current_example s)\<rparr>;
                  s2 = s1\<lparr>examples := tell_examples (examples s1) [PDict (current_example s1)]\<rparr>;
                  (contents, w3) = read_file df w2;
                  (r, s3) = load_from env s2 contents
              in
                (case r of
                   Inl e \<Rightarrow> (Inl e, s3, release df w3)
                 | Inr _ \<Rightarrow>
                     (let w4 = clear_file df w3;
                          (d, s4) = get_data s3
                      in
                        (case d of
                           Inl e \<Rightarrow> (Inl e, s4, release df w4)
                         | Inr data \<Rightarrow>
                             (case dumps env s4 data of
                                Inl e \<Rightarrow> (Inl e, s4, release df w4)
                              | Inr raw \<Rightarrow>
                                  (Inr (), s4,
                                   release df (sync_file df (write_file df raw w4))))))))))"

text \<open>
  Modelled from the spec: \<^verbatim>\<open>bbopt.util.denumpy_all\<close> is not among the sources. The spec has
  it normalise recursively: a numeric-array scalar becomes a plain number, an array a
  plain sequence (of sequences, for a rank above 1), and the containers keep their kind.
\<close>

definition denumpy :: "npnum \<Rightarrow> pyval" where
  "denumpy n = (case n of NpBool b \<Rightarrow> PBool b | NpInt i \<Rightarrow> PInt i | NpFloat r \<Rightarrow> PFloat r)"

fun tolist :: "nat list \<Rightarrow> npnum list \<Rightarrow> pyval" where
  "tolist [] ds = (case ds of [] \<Rightarrow> PNone | d # _ \<Rightarrow> denumpy d)"
| "tolist (n # sh) ds =
     PList (map (\<lambda>i. tolist sh (take (prod_list sh) (drop (i * prod_list sh) ds))) [0..<n])"

primrec denumpy_all :: "pyval \<Rightarrow> pyval" where
  "denumpy_all PNone = PNone"
| "denumpy_all (PBool b) = PBool b"
| "denumpy_all (PInt i) = PInt i"
| "denumpy_all (PFloat r) = PFloat r"
| "denumpy_all (PStr s) = PStr s"
| "denumpy_all (PList xs) = PList (map denumpy_all xs)"
| "denumpy_all (PTuple xs) = PTuple (map denumpy_all xs)"
| "denumpy_all (PDict m) = PDict (fmmap denumpy_all m)"
| "denumpy_all (PNpScalar n) = denumpy n"
| "denumpy_all (PNdarray sh ds) = tolist sh ds"

text \<open>
  \<^verbatim>\<open>_param\<close>. The three checks come first, in the order of the source; then the arguments
  are standardised, the backend is asked for the value (\<open>backend_param\<close> stands for the
  call \<^verbatim>\<open>self.backend.param(name, func, *args, **kwargs)\<close>), and the definition and the
  value are recorded.
\<close>

definition param ::
  "env \<Rightarrow> pyval \<Rightarrow> string \<Rightarrow> pyval list \<Rightarrow> (string, pyval) fmap \<Rightarrow> optimizer
     \<Rightarrow> (error + pyval) \<times> optimizer"
where
  "param env name func args kwargs s =
     (if got_reward s then
        (Inl (ValueError ''all parameter definitions must come before maximize/minimize''), s)
      else
        (case name of
           PStr n \<Rightarrow>
             (if n |\<in>| fmdom (new_params s) then
                (Inl (ValueError ''parameter of name already exists''), s)
              else
                (case standardize_args env func args of
                   Inl e \<Rightarrow> (Inl e, s)
                 | Inr args' \<Rightarrow>
                     (case standardize_kwargs env kwargs of
                        Inl e \<Rightarrow> (Inl e, s)
                      | Inr kwargs' \<Rightarrow>
                          (case backend_param (backend s) n func args' kwargs' of
                             Inl e \<Rightarrow> (Inl e, s)
                           | Inr v \<Rightarrow>
                               (let s1 = s\<lparr>new_params :=
                                             fmupd n (PTuple [PStr func, args', kwargs'])
                                               (new_params s)\<rparr>
                                in
                                  (case fmlookup (current_example s1) ''values'' of
                                     None \<Rightarrow> (Inl KeyError, s1)
                                   | Some (PDict vals) \<Rightarrow>
                                       (Inr v,
                                        s1\<lparr>current_example :=
                                             fmupd ''values'' (PDict (fmupd n v vals))
                                               (current_example s1)\<rparr>)
                                   | Some _ \<Rightarrow>
                                       (Inl (TypeError ''object does not support item assignment''),
                                        s1)))))))
         | _ \<Rightarrow> (Inl (TypeError ''name must be a string''), s)))"

text \<open>\<^verbatim>\<open>remember\<close>, for a dictionary \<open>info\<close>: \<^verbatim>\<open>setdefault("memo", {}).update(info)\<close>.\<close>

definition remember :: "(string, pyval) fmap \<Rightarrow> optimizer \<Rightarrow> (error + unit) \<times> optimizer" where
  "remember info s =
     (if got_reward s then
        (Inl (ValueError ''remember calls must come before maximize/minimize''), s)
      else
        (case fmlookup (current_example s) ''memo'' of
           None \<Rightarrow>
             (Inr (), s\<lparr>current_example := fmupd ''memo'' (PDict info) (current_example s)\<rparr>)
         | Some (PDict memo) \<Rightarrow>
             (Inr (),
              s\<lparr>current_example := fmupd ''memo'' (PDict (memo ++\<^sub>f info)) (current_example s)\<rparr>)
         | Some _ \<Rightarrow> (Inl AttributeError, s)))"

text \<open>
  \<^verbatim>\<open>_set_reward\<close>, with \<^verbatim>\<open>minimize\<close> and \<^verbatim>\<open>maximize\<close>. An array must have exactly one
  dimension and becomes the tuple of its entries; the value goes through \<open>denumpy_all\<close>
  into the current example; the data is saved unless the backend is the serving one.
\<close>

definition set_reward ::
  "env \<Rightarrow> string \<Rightarrow> pyval \<Rightarrow> optimizer \<Rightarrow> world \<Rightarrow> (error + unit) \<times> optimizer \<times> world"
where
  "set_reward env reward_type v s w =
     (if got_reward s then
        (Inl (ValueError ''only one call to maximize or minimize is allowed''), s, w)
      else
        (case (case v of
                 PNdarray sh ds \<Rightarrow>
                   (if length sh \<noteq> 1 then
                      Inl (ValueError ''gain/loss must be a scalar or 1-dimensional array'')
                    else (case py_iter v of Inl e \<Rightarrow> Inl e | Inr xs \<Rightarrow> Inr (PTuple xs)))
               | _ \<Rightarrow> Inr v) of
           Inl e \<Rightarrow> (Inl e, s, w)
         | Inr v' \<Rightarrow>
             (let s1 = s\<lparr>current_example := fmupd reward_type (denumpy_all v') (current_example s)\<rparr>
              in if \<not> is_serving s1 then save_data env s1 w else (Inr (), s1, w))))"

definition minimize :: "env \<Rightarrow> pyval \<Rightarrow> optimizer \<Rightarrow> world \<Rightarrow> (error + unit) \<times> optimizer \<times> world" where
  "minimize env v s w = set_reward env ''loss'' v s w"

definition maximize :: "env \<Rightarrow> pyval \<Rightarrow> optimizer \<Rightarrow> world \<Rightarrow> (error + unit) \<times> optimizer \<times> world" where
  "maximize env v s w = set_reward env ''gain'' v s w"

text \<open>
  \<^verbatim>\<open>randrange\<close> and \<^verbatim>\<open>randint\<close>, for integers \<open>a\<close> and \<open>b\<close> (the arguments of
  \<^verbatim>\<open>random.randint\<close>): \<^verbatim>\<open>start, stop = a, b - 1\<close>.
\<close>

definition randrange ::
  "env \<Rightarrow> pyval \<Rightarrow> pyval list \<Rightarrow> (string, pyval) fmap \<Rightarrow> optimizer \<Rightarrow> (error + pyval) \<times> optimizer"
where
  "randrange env name args kwargs s = param env name ''randrange'' args kwargs s"

definition randint ::
  "env \<Rightarrow> pyval \<Rightarrow> int \<Rightarrow> int \<Rightarrow> (string, pyval) fmap \<Rightarrow> optimizer \<Rightarrow> (error + pyval) \<times> optimizer"
where
  "randint env name a b kwargs s =
     (let start = a; stop = b - 1 in randrange env name [PInt start, PInt stop] kwargs s)"

text \<open>
  \<^verbatim>\<open>reload\<close> and \<^verbatim>\<open>__init__\<close>. \<open>init_attributes\<close> is the part of \<^verbatim>\<open>__init__\<close> before the call
  of \<^verbatim>\<open>reload\<close>: the path, and the protocol, which is detected when the argument is
  \<^verbatim>\<open>None\<close>. The attributes that \<^verbatim>\<open>reload\<close> sets first have placeholders in \<open>new_object\<close>;
  \<^verbatim>\<open>__init__\<close> returns the object only when \<^verbatim>\<open>reload\<close> has set them.
\<close>

definition reload :: "env \<Rightarrow> optimizer \<Rightarrow> world \<Rightarrow> (error + unit) \<times> optimizer \<times> world" where
  "reload env s w =
     (let s1 = s\<lparr>old_params := PDict fmempty, examples := []\<rparr>;
          (r, s2, w') = load_data env s1 w
      in
        (case r of
           Inl e \<Rightarrow> (Inl e, s2, w')
         | Inr _ \<Rightarrow> (let (r', s3) = run env PNone s2 in (r', s3, w'))))"

definition new_object :: optimizer where
  "new_object =
     \<lparr>file_path = [], protocol = PNone, old_params = PNone, examples = [],
      backend = \<lparr>backend_class = ServingBackend, backend_param = (\<lambda>_ _ _ _. Inl AttributeError)\<rparr>,
      new_params = fmempty, current_example = fmempty\<rparr>"

definition init_attributes :: "env \<Rightarrow> string \<Rightarrow> pyval \<Rightarrow> world \<Rightarrow> optimizer" where
  "init_attributes env f proto w =
     (let s0 = new_object\<lparr>file_path := norm_path env f\<rparr> in
      if proto = PNone then
        (let s1 = s0\<lparr>protocol := PStr ''json''\<rparr> in
         if files w (data_file env s1) = None then s1\<lparr>protocol := default_protocol env\<rparr> else s1)
      else s0\<lparr>protocol := proto\<rparr>)"

definition init :: "env \<Rightarrow> pyval \<Rightarrow> pyval \<Rightarrow> world \<Rightarrow> (error + optimizer) \<times> world" where
  "init env f proto w =
     (case f of
        PStr p \<Rightarrow>
          (let (r, s, w') = reload env (init_attributes env p proto w) w in
           (case r of Inl e \<Rightarrow> (Inl e, w') | Inr _ \<Rightarrow> (Inr s, w')))
      | _ \<Rightarrow> (Inl (TypeError ''file must be a string''), w))"

section \<open>Programs and processes\<close>

text \<open>
  A program drives an optimizer by a sequence of calls. A call that raises leaves the
  attributes as the method left them, and the program goes on with the next call.
\<close>

datatype call =
    Param pyval string "pyval list" "(string, pyval) fmap"
  | Remember "(string, pyval) fmap"
  | Minimize pyval
  | Maximize pyval
  | RunBackend pyval "pyval list" "(string, pyval) fmap"
  | Run pyval
  | Reload

fun do_call :: "env \<Rightarrow> call \<Rightarrow> optimizer \<times> world \<Rightarrow> optimizer \<times> world" where
  "do_call env (Param name func args kwargs) (s, w) = (snd (param env name func args kwargs s), w)"
| "do_call env (Remember info) (s, w) = (snd (remember info s), w)"
| "do_call env (Minimize v) (s, w) = snd (minimize env v s w)"
| "do_call env (Maximize v) (s, w) = snd (maximize env v s w)"
| "do_call env (RunBackend b args options) (s, w) = (snd (run_backend env b args options s), w)"
| "do_call env (Run alg) (s, w) = (snd (run env alg s), w)"
| "do_call env Reload (s, w) = snd (reload env s w)"

fun do_calls :: "env \<Rightarrow> call list \<Rightarrow> optimizer \<times> world \<Rightarrow> optimizer \<times> world" where
  "do_calls env [] sw = sw"
| "do_calls env (c # cs) sw = do_calls env cs (do_call env c sw)"

text \<open>
  Several processes share the world. A step is a call of one process, which runs to its
  end (a commit runs inside the lock, so the calls of two processes do not interleave
  on the file), or the passing of time.
\<close>

datatype step = Tick real | Call nat call

fun system_step :: "env \<Rightarrow> step \<Rightarrow> optimizer list \<times> world \<Rightarrow> optimizer list \<times> world" where
  "system_step env (Tick d) (ps, w) = (ps, w\<lparr>clock := clock w + d\<rparr>)"
| "system_step env (Call i c) (ps, w) =
     (if i < length ps then
        (let (s', w') = do_call env c (ps ! i, w) in (ps[i := s'], w'))
      else (ps, w))"

fun system_run :: "env \<Rightarrow> step list \<Rightarrow> optimizer list \<times> world \<Rightarrow> optimizer list \<times> world" where
  "system_run env [] pw = pw"
| "system_run env (st # sts) pw = system_run env sts (system_step env st pw)"

definition forward :: "step \<Rightarrow> bool" where
  "forward st = (case st of Tick d \<Rightarrow> 0 \<le> d | Call _ _ \<Rightarrow> True)"

text \<open>The timestamps read, in the order of the trace.\<close>

fun timestamps :: "event list \<Rightarrow> real list" where
  "timestamps [] = []"
| "timestamps (TimeRead t # tr) = t # timestamps tr"
| "timestamps (_ # tr) = timestamps tr"

text \<open>
  The discipline of a trace, read from its start with the path \<open>h\<close> of the lock that is
  held, if any: a lock is acquired when none is held and released by its holder; the
  clock and the file are touched only under the lock of the file; a file is created
  outside every lock.
\<close>

fun under_lock :: "string option \<Rightarrow> event list \<Rightarrow> bool" where
  "under_lock h [] = (h = None)"
| "under_lock h (Acquire p # tr) = (h = None \<and> under_lock (Some p) tr)"
| "under_lock h (Release p # tr) = (h = Some p \<and> under_lock None tr)"
| "under_lock h (TimeRead t # tr) = (h \<noteq> None \<and> under_lock h tr)"
| "under_lock h (ReadFile p # tr) = (h = Some p \<and> under_lock h tr)"
| "under_lock h (Truncate p # tr) = (h = Some p \<and> under_lock h tr)"
| "under_lock h (WriteFile p raw # tr) = (h = Some p \<and> under_lock h tr)"
| "under_lock h (SyncFile p # tr) = (h = Some p \<and> under_lock h tr)"
| "under_lock h (Create p # tr) = (h = None \<and> under_lock h tr)"

section \<open>A sample environment\<close>

text \<open>
  Concrete values on which the model is run: a backend that answers \<open>0.5\<close> to every
  request, an encoder that writes the names of the parameters and one star for each
  example, a decoder that knows two files, and the registry of the serving backend
  (under \<^verbatim>\<open>None\<close>) and of the random one.
\<close>

definition sample_backend :: "backend_class \<Rightarrow> backend" where
  "sample_backend c =
     \<lparr>backend_class = c, backend_param = (\<lambda>name func args kwargs. Inr (PFloat (1 / 2)))\<rparr>"

definition sample_dumps :: "pyval \<Rightarrow> error + string" where
  "sample_dumps v =
     (case v of
        PDict m \<Rightarrow>
          (case (fmlookup m ''params'', fmlookup m ''examples'') of
             (Some (PDict ps), Some (PList es)) \<Rightarrow>
               Inr (''params='' @ concat (map (\<lambda>k. k @ '','') (sorted_list_of_fset (fmdom ps)))
                    @ '';examples='' @ replicate (length es) (CHR ''*''))
           | _ \<Rightarrow> Inl EncodeError)
      | _ \<Rightarrow> Inl EncodeError)"

definition uniform01 :: pyval where
  "uniform01 = PTuple [PStr ''uniform'', PTuple [PInt 0, PInt 1], PDict fmempty]"

definition sample_example :: "string \<Rightarrow> real \<Rightarrow> real \<Rightarrow> pyval" where
  "sample_example name loss t =
     PDict (fmap_of_list
       [(''values'', PDict (fmap_of_list [(name, PFloat (1 / 2))])),
        (''loss'', PFloat loss), (''timestamp'', PFloat t)])"

definition sample_history :: "pyval list \<Rightarrow> pyval" where
  "sample_history es =
     PDict (fmap_of_list
       [(''params'', PDict (fmap_of_list [(''y'', uniform01)])), (''examples'', PList es)])"

definition sample_loads :: "string \<Rightarrow> error + pyval" where
  "sample_loads raw =
     (if raw = ''params=y,;examples=*'' then Inr (sample_history [sample_example ''y'' 1 10])
      else if raw = ''params=y,;examples=**'' then
        Inr (sample_history [sample_example ''y'' 1 10, sample_example ''y'' 3 11])
      else if raw = ''[]'' then Inr (PList [])
      else Inl DecodeError)"

definition sample_env :: env where
  "sample_env =
     \<lparr>json_loads = sample_loads,
      json_dumps = sample_dumps,
      pickle_loads = sample_loads,
      pickle_dumps = (\<lambda>v proto. sample_dumps v),
      standardize_args = (\<lambda>func args. Inr (PTuple args)),
      standardize_kwargs = (\<lambda>kwargs. Inr (PDict kwargs)),
      norm_path = (\<lambda>p. p),
      splitext = takeWhile (\<lambda>c. c \<noteq> CHR ''.''),
      data_file_ext = ''.bbopt'',
      default_protocol = PInt 2,
      alg_registry =
        (\<lambda>alg. if alg = PNone then Inr (PNone, fmempty)
              else if alg = PStr ''random'' then Inr (PStr ''random'', fmempty)
              else Inl KeyError),
      init_backend =
        (\<lambda>b exs old args options.
           if b = PNone then Inr (sample_backend ServingBackend)
           else if b = PStr ''random'' then Inr (sample_backend RandomBackend)
           else Inl KeyError)\<rparr>"

text \<open>
  A process in the middle of a run: on the file \<^verbatim>\<open>run.py\<close> with the JSON protocol, with
  the given backend, examples and old parameters, after the declaration of the
  parameter \<open>name\<close>.
\<close>

definition sample_optimizer ::
  "backend_class \<Rightarrow> pyval list \<Rightarrow> (string, pyval) fmap \<Rightarrow> string \<Rightarrow> optimizer"
where
  "sample_optimizer c es old name =
     \<lparr>file_path = ''run.py'', protocol = PStr ''json'', old_params = PDict old, examples = es,
      backend = sample_backend c,
      new_params = fmap_of_list [(name, uniform01)],
      current_example = fmap_of_list [(''values'', PDict (fmap_of_list [(name, PFloat (1 / 2))]))]\<rparr>"

definition sample_world :: "string option \<Rightarrow> real \<Rightarrow> world" where
  "sample_world contents t =
     \<lparr>files = (\<lambda>p. if p = ''run.bbopt.json'' then contents else None),
      locked = {}, clock = t, trace = []\<rparr>"

section \<open>Lemmas on the operations\<close>



lemma tell_examples_known: "set l \<subseteq> set exs \<Longrightarrow> tell_examples exs l = exs"
  by (induction l arbitrary: exs) auto


lemma got_reward_errors:
  assumes "got_reward s"
  shows "param env name func args kwargs s =
           (Inl (ValueError ''all parameter definitions must come before maximize/minimize''), s)"
    and "set_reward env reward_type v s w =
           (Inl (ValueError ''only one call to maximize or minimize is allowed''), s, w)"
    and "remember info s =
           (Inl (ValueError ''remember calls must come before maximize/minimize''), s)"
  using assms by (simp_all add: param_def set_reward_def remember_def)

lemma load_from_current_example:
  "load_from env s c = (r, s') \<Longrightarrow> current_example s' = current_example s"
  by (auto simp: load_from_def Let_def split: if_splits sum.splits pyval.splits option.splits)

lemma get_data_current_example:
  "get_data s = (r, s') \<Longrightarrow> current_example s' = current_example s"
  by (auto simp: get_data_def Let_def split: pyval.splits)

lemma save_data_current_example:
  "save_data env s w = (r, s', w') \<Longrightarrow> fmdom (current_example s) |\<subseteq>| fmdom (current_example s')"
  unfolding save_data_def Let_def
  by (auto split: if_splits sum.splits prod.splits dest!: load_from_current_example get_data_current_example)

lemma loads_frame [simp]:
  "loads env (s\<lparr>current_example := ce\<rparr>) = loads env s"
  "loads env (s\<lparr>examples := ex\<rparr>) = loads env s"
  "loads env (s\<lparr>old_params := op\<rparr>) = loads env s"
  by (simp_all add: loads_def use_json_def fun_eq_iff)

lemma dumps_frame [simp]:
  "dumps env (s\<lparr>current_example := ce\<rparr>) = dumps env s"
  "dumps env (s\<lparr>examples := ex\<rparr>) = dumps env s"
  "dumps env (s\<lparr>old_params := op\<rparr>) = dumps env s"
  by (simp_all add: dumps_def use_json_def fun_eq_iff)



lemma save_data_lookup:
  assumes "save_data env s w = (r, s', w')" and "k \<noteq> ''timestamp''"
  shows "fmlookup (current_example s') k = fmlookup (current_example s) k"
  using assms unfolding save_data_def Let_def
  by (auto split: if_splits sum.splits prod.splits
      dest!: load_from_current_example get_data_current_example)

lemma set_reward_got_reward:
  assumes "set_reward env reward_type v s0 w0 = (Inr (), s, w)"
    and "reward_type = ''loss'' \<or> reward_type = ''gain''"
  shows "got_reward s"
proof (cases "got_reward s0")
  case True
  then show ?thesis using assms by (simp add: set_reward_def)
next
  case False
  obtain v' where s: "s = s0\<lparr>current_example := fmupd reward_type v' (current_example s0)\<rparr> \<or>
      save_data env (s0\<lparr>current_example := fmupd reward_type v' (current_example s0)\<rparr>) w0 = (Inr (), s, w)"
    using assms(1) False
    by (auto simp: set_reward_def Let_def split: sum.splits if_splits)
  have "reward_type \<noteq> ''timestamp''" using assms(2) by auto
  then have "fmlookup (current_example s) reward_type = Some v'"
    using s save_data_lookup [of env _ w0 "Inr ()" s w reward_type] by auto
  then have "reward_type |\<in>| fmdom (current_example s)" by (rule fmdomI)
  then show ?thesis using assms(2) by (auto simp: got_reward_def)
qed

lemma pattern_match_shape:
  "(fcard (fmdom m) = 2 \<and> fmlookup m ''params'' \<noteq> None \<and> fmlookup m ''examples'' \<noteq> None)
     = (fmdom m = {|''params'', ''examples''|})"
proof
  assume a: "fcard (fmdom m) = 2 \<and> fmlookup m ''params'' \<noteq> None \<and> fmlookup m ''examples'' \<noteq> None"
  then have sub: "{|''params'', ''examples''|} |\<subseteq>| fmdom m"
    by (auto simp: fmlookup_dom_iff)
  have "fcard {|''params'', ''examples''|} = 2"
    by (simp add: fcard_finsert_if)
  then show "fmdom m = {|''params'', ''examples''|}"
    using a sub by (metis fcard_seteq order_refl)
next
  assume "fmdom m = {|''params'', ''examples''|}"
  then show "fcard (fmdom m) = 2 \<and> fmlookup m ''params'' \<noteq> None \<and> fmlookup m ''examples'' \<noteq> None"
    by (auto simp: fcard_finsert_if fmlookup_dom_iff [symmetric])
qed

lemma load_from_mismatch:
  assumes "c \<noteq> []" and "loads env s c = Inr v" and "\<not> exactly_params_and_examples v"
  shows "load_from env s c = (Inl MatchError, s)"
proof (cases v)
  case (PDict m)
  then have "\<not> (fcard (fmdom m) = 2 \<and> fmlookup m ''params'' \<noteq> None \<and> fmlookup m ''examples'' \<noteq> None)"
    using assms(3) pattern_match_shape [of m] by (simp add: exactly_params_and_examples_def)
  then show ?thesis
    using assms(1,2) PDict by (auto simp: load_from_def split: option.splits)
qed (use assms in \<open>simp_all add: load_from_def exactly_params_and_examples_def\<close>)

lemma load_from_match:
  assumes "c \<noteq> []" and "loads env s c = Inr v" and "exactly_params_and_examples v"
  shows "fst (load_from env s c) \<noteq> Inl MatchError"
proof -
  obtain m where v: "v = PDict m" and d: "fmdom m = {|''params'', ''examples''|}"
    using assms(3) by (auto simp: exactly_params_and_examples_def split: pyval.splits)
  have "fcard (fmdom m) = 2 \<and> fmlookup m ''params'' \<noteq> None \<and> fmlookup m ''examples'' \<noteq> None"
    using d pattern_match_shape [of m] by simp
  then show ?thesis
    using assms(1,2) v
    by (auto simp: load_from_def Let_def py_iter_def split: option.splits sum.splits pyval.splits list.splits)
qed

lemma load_data_result:
  assumes "files w (data_file env s) = Some c" and "data_file env s \<notin> locked w"
  shows "load_data env s w =
           (fst (load_from env s c), snd (load_from env s c),
            w\<lparr>trace := trace w @
                [Acquire (data_file env s), ReadFile (data_file env s),
                 Release (data_file env s)]\<rparr>)"
  using assms
  by (simp add: load_data_def ensure_file_def acquire_def read_file_def release_def emit_def
      Let_def split: prod.splits)

lemma load_data_created:
  assumes "files w (data_file env s) = None" and "data_file env s \<notin> locked w"
  shows "load_data env s w =
           (Inr (), s,
            w\<lparr>files := (files w)(data_file env s \<mapsto> []),
              trace := trace w @
                [Create (data_file env s), Acquire (data_file env s),
                 ReadFile (data_file env s), Release (data_file env s)]\<rparr>)"
  using assms
  by (simp add: load_data_def ensure_file_def acquire_def read_file_def release_def emit_def
      load_from_def Let_def)

lemma data_file_frame [simp]:
  "data_file env (s\<lparr>current_example := ce\<rparr>) = data_file env s"
  "data_file env (s\<lparr>examples := ex\<rparr>) = data_file env s"
  "data_file env (s\<lparr>old_params := op\<rparr>) = data_file env s"
  "data_file env (s\<lparr>new_params := np\<rparr>) = data_file env s"
  "data_file env (s\<lparr>backend := be\<rparr>) = data_file env s"
  by (simp_all add: data_file_def use_json_def)

lemma load_from_frame:
  assumes "load_from env s c = (r, s')"
  shows "protocol s' = protocol s" and "file_path s' = file_path s"
    and "backend s' = backend s" and "new_params s' = new_params s"
  using assms
  by (auto simp: load_from_def Let_def split: if_splits sum.splits pyval.splits option.splits)

lemma run_frame:
  assumes "run env alg s = (r, s')"
  shows "protocol s' = protocol s" and "file_path s' = file_path s"
    and "old_params s' = old_params s" and "examples s' = examples s"
  using assms
  by (auto simp: run_def run_backend_def split: sum.splits prod.splits)

lemma load_data_frame:
  assumes "load_data env s w = (r, s', w')"
  shows "protocol s' = protocol s" and "file_path s' = file_path s"
proof -
  have "s' = s \<or> (\<exists>c. s' = snd (load_from env s c))"
    using assms
    by (auto simp: load_data_def Let_def split: sum.splits prod.splits) (metis snd_conv)
  then show "protocol s' = protocol s" and "file_path s' = file_path s"
    using load_from_frame(1,2) [OF surjective_pairing] by auto
qed

lemma reload_frame:
  assumes "reload env s w = (r, s', w')"
  shows "protocol s' = protocol s" and "file_path s' = file_path s"
proof -
  let ?s1 = "s\<lparr>old_params := PDict fmempty, examples := []\<rparr>"
  let ?l = "load_data env ?s1 w"
  have "s' = fst (snd ?l) \<or> s' = snd (run env PNone (fst (snd ?l)))"
    using assms by (auto simp: reload_def Let_def split: sum.splits prod.splits)
  moreover have "protocol (fst (snd ?l)) = protocol s" and "file_path (fst (snd ?l)) = file_path s"
    using load_data_frame [of env ?s1 w "fst ?l" "fst (snd ?l)" "snd (snd ?l)"] by simp_all
  ultimately show "protocol s' = protocol s" and "file_path s' = file_path s"
    using run_frame(1,2) [OF surjective_pairing] by auto
qed

lemma param_declares:
  assumes "param env (PStr n) func args kwargs s = (Inr v, s')"
  shows "n |\<in>| fmdom (new_params s')" and "\<not> got_reward s'"
  using assms
  by (auto simp: param_def got_reward_def Let_def
      split: if_splits sum.splits option.splits pyval.splits)

lemma is_serving_frame [simp]:
  "is_serving (s\<lparr>current_example := ce\<rparr>) = is_serving s"
  by (simp add: is_serving_def)

lemma load_from_trace_free:
  "load_from env s c = (r, s') \<Longrightarrow> file_path s' = file_path s \<and> protocol s' = protocol s"
  using load_from_frame(1,2) by blast

lemma save_data_trace:
  assumes "''timestamp'' |\<notin>| fmdom (current_example s)"
    and "files w (data_file env s) \<noteq> None" and "data_file env s \<notin> locked w"
  shows "\<exists>tr. trace (snd (snd (save_data env s w))) =
           trace w @ Acquire (data_file env s) # TimeRead (clock w) # tr"
  using assms unfolding save_data_def Let_def
  by (auto simp: acquire_def emit_def read_file_def release_def clear_file_def write_file_def
      sync_file_def split: prod.splits sum.splits)

lemma serving_frame:
  assumes "is_serving s"
  shows "snd (snd (set_reward env reward_type v s w)) = w"
    and "examples (fst (snd (set_reward env reward_type v s w))) = examples s"
  using assms by (auto simp: set_reward_def Let_def split: sum.splits)

lemma reward_rank_zero_rejected:
  "\<not> got_reward s \<Longrightarrow>
     set_reward env reward_type (PNdarray [] ds) s w =
       (Inl (ValueError ''gain/loss must be a scalar or 1-dimensional array''), s, w)"
  by (simp add: set_reward_def)


section \<open>The claims\<close>

text \<open>
  C3. Within one run, once a reward has been set (a call of \<^verbatim>\<open>minimize\<close> or \<^verbatim>\<open>maximize\<close> has
  returned), declaring a parameter raises a usage error, setting a reward a second time
  raises a usage error, and \<^verbatim>\<open>remember\<close> raises a usage error; each error is the result of
  the call itself, and the call changes nothing.
\<close>

theorem reward_seals_run:
  assumes "minimize env v s0 w0 = (Inr (), s, w) \<or> maximize env v s0 w0 = (Inr (), s, w)"
  shows "param env name func args kwargs s =
           (Inl (ValueError ''all parameter definitions must come before maximize/minimize''), s)
       \<and> minimize env v' s w' =
           (Inl (ValueError ''only one call to maximize or minimize is allowed''), s, w')
       \<and> maximize env v' s w' =
           (Inl (ValueError ''only one call to maximize or minimize is allowed''), s, w')
       \<and> remember info s =
           (Inl (ValueError ''remember calls must come before maximize/minimize''), s)"
proof -
  have "got_reward s"
    using assms set_reward_got_reward [of env _ v s0 w0 s w]
    by (auto simp: minimize_def maximize_def)
  then show ?thesis
    using got_reward_errors [of s] by (simp add: minimize_def maximize_def)
qed

text \<open>A run sealed by a commit into an empty data file, then a declaration.\<close>

theorem reward_seals_run_witness:
  "fst (minimize sample_env (PFloat 3) (sample_optimizer RandomBackend [] fmempty ''x'')
         (sample_world (Some []) 11)) = Inr ()
   \<and> fst (param sample_env (PStr ''z'') ''uniform'' [PInt 0, PInt 1] fmempty
         (fst (snd (minimize sample_env (PFloat 3) (sample_optimizer RandomBackend [] fmempty ''x'')
            (sample_world (Some []) 11)))))
      = Inl (ValueError ''all parameter definitions must come before maximize/minimize'')"
proof -
  let ?m = "minimize sample_env (PFloat 3) (sample_optimizer RandomBackend [] fmempty ''x'')
              (sample_world (Some []) 11)"
  have ok: "fst ?m = Inr ()"
    by code_simp
  then have h: "?m = (Inr (), fst (snd ?m), snd (snd ?m))"
    by (metis prod.collapse)
  show ?thesis
    using ok reward_seals_run [of sample_env "PFloat 3" _ _ "fst (snd ?m)" "snd (snd ?m)"
        "PStr ''z''" "''uniform''" "[PInt 0, PInt 1]" fmempty, OF disjI1, OF h]
    by simp
qed

text \<open>
  C10. For every name, \<open>a\<close> and \<open>b\<close>, \<^verbatim>\<open>randint(name, a, b)\<close> is \<^verbatim>\<open>randrange(name, a, b - 1)\<close>:
  the two positional arguments of the underlying \<^verbatim>\<open>randrange\<close> parameter are \<open>a\<close> and
  \<open>b - 1\<close> (and not \<open>a\<close> and \<open>b + 1\<close>, the range of \<^verbatim>\<open>random.randint(a, b)\<close>, which the
  docstring names).
\<close>

theorem randint_is_randrange_minus_one:
  "randint env name a b kwargs s = randrange env name [PInt a, PInt (b - 1)] kwargs s
   \<and> randint env name a b kwargs s = param env name ''randrange'' [PInt a, PInt (b - 1)] kwargs s"
  by (simp add: randint_def randrange_def)

text \<open>
  C6. On load, an empty data file yields an empty trial history (\<^verbatim>\<open>reload\<close> ends with no old
  parameter and no example), and a decoded payload that is not exactly a mapping with
  the two keys \<^verbatim>\<open>params\<close> and \<^verbatim>\<open>examples\<close> raises the match error: the load fails, and the
  file is left as it is.
\<close>

theorem load_empty_or_mismatch:
  assumes "files w (data_file env s) = Some c" and "data_file env s \<notin> locked w"
    and "c \<noteq> [] \<Longrightarrow> loads env s c = Inr v \<and> \<not> exactly_params_and_examples v"
  shows "load_data env s w =
           (if c = [] then Inr () else Inl MatchError, s,
            w\<lparr>trace := trace w @
                [Acquire (data_file env s), ReadFile (data_file env s),
                 Release (data_file env s)]\<rparr>)
       \<and> (c \<noteq> [] \<longrightarrow> fst (reload env s w) = Inl MatchError)
       \<and> old_params (fst (snd (reload env s w))) = PDict fmempty
       \<and> examples (fst (snd (reload env s w))) = []
       \<and> files (snd (snd (reload env s w))) = files w"
proof -
  let ?s1 = "s\<lparr>old_params := PDict fmempty, examples := []\<rparr>"
  let ?w' = "w\<lparr>trace := trace w @
                [Acquire (data_file env s), ReadFile (data_file env s),
                 Release (data_file env s)]\<rparr>"
  have lf: "load_from env s' c = (if c = [] then Inr () else Inl MatchError, s')"
    if "loads env s' = loads env s" for s'
  proof (cases "c = []")
    case True
    then show ?thesis by (simp add: load_from_def)
  next
    case False
    then show ?thesis
      using assms(3) that load_from_mismatch [of c env s' v] by simp
  qed
  have ld: "load_data env s w = (if c = [] then Inr () else Inl MatchError, s, ?w')"
    using load_data_result [OF assms(1,2)] lf [of s] by simp
  have "files w (data_file env ?s1) = Some c" and "data_file env ?s1 \<notin> locked w"
    using assms(1,2) by simp_all
  then have ld1: "load_data env ?s1 w = (if c = [] then Inr () else Inl MatchError, ?s1, ?w')"
    using load_data_result [of w env ?s1 c] lf [of ?s1] by simp
  have rl: "reload env s w =
              (if c = [] then (fst (run env PNone ?s1), snd (run env PNone ?s1), ?w')
               else (Inl MatchError, ?s1, ?w'))"
    using ld1 by (simp add: reload_def Let_def split: prod.splits)
  have "old_params (snd (run env PNone ?s1)) = PDict fmempty"
    and "examples (snd (run env PNone ?s1)) = []"
    using run_frame(3,4) [of env PNone ?s1 "fst (run env PNone ?s1)" "snd (run env PNone ?s1)"]
    by simp_all
  then show ?thesis using ld rl by simp
qed

text \<open>A data file that holds an encoded list instead of a history.\<close>

theorem load_empty_or_mismatch_witness:
  "files (sample_world (Some ''[]'') 0)
     (data_file sample_env (sample_optimizer ServingBackend [] fmempty ''x'')) = Some ''[]''
   \<and> data_file sample_env (sample_optimizer ServingBackend [] fmempty ''x'')
        \<notin> locked (sample_world (Some ''[]'') 0)
   \<and> loads sample_env (sample_optimizer ServingBackend [] fmempty ''x'') ''[]'' = Inr (PList [])
   \<and> \<not> exactly_params_and_examples (PList [])
   \<and> fst (load_data sample_env (sample_optimizer ServingBackend [] fmempty ''x'')
         (sample_world (Some ''[]'') 0)) = Inl MatchError
   \<and> fst (reload sample_env (sample_optimizer ServingBackend [] fmempty ''x'')
         (sample_world (Some ''[]'') 0)) = Inl MatchError
   \<and> files (snd (snd (reload sample_env (sample_optimizer ServingBackend [] fmempty ''x'')
         (sample_world (Some ''[]'') 0))))
        = files (sample_world (Some ''[]'') 0)"
proof -
  let ?s = "sample_optimizer ServingBackend [] fmempty ''x''"
  let ?w = "sample_world (Some ''[]'') 0"
  have 1: "files ?w (data_file sample_env ?s) = Some ''[]''" by code_simp
  have 2: "data_file sample_env ?s \<notin> locked ?w" by code_simp
  have 3: "loads sample_env ?s ''[]'' = Inr (PList []) \<and> \<not> exactly_params_and_examples (PList [])"
    by code_simp
  show ?thesis
    using 1 2 3 load_empty_or_mismatch [of ?w sample_env ?s "''[]''" "PList []", OF 1 2]
    by simp
qed

text \<open>
  C7, as the code has it. A call that declares a parameter before the reward fails with
  \<^verbatim>\<open>TypeError\<close> if the name is not a string and with \<^verbatim>\<open>ValueError\<close> if a parameter of the
  same name was already declared in the current run, as happens for the second of two
  declarations of one name. The empty string is a name like any other: nothing in
  \<^verbatim>\<open>_param\<close> rejects it.
\<close>

theorem param_name_checked:
  assumes "\<not> got_reward s"
  shows "((\<forall>n. name \<noteq> PStr n) \<longrightarrow>
            param env name func args kwargs s = (Inl (TypeError ''name must be a string''), s))
       \<and> (n |\<in>| fmdom (new_params s) \<longrightarrow>
            param env (PStr n) func args kwargs s =
              (Inl (ValueError ''parameter of name already exists''), s))
       \<and> (param env (PStr n) func args kwargs s = (Inr v, s') \<longrightarrow>
            param env (PStr n) func' args' kwargs' s' =
              (Inl (ValueError ''parameter of name already exists''), s'))"
proof (intro conjI impI)
  assume "\<forall>n. name \<noteq> PStr n"
  then show "param env name func args kwargs s = (Inl (TypeError ''name must be a string''), s)"
    using assms by (cases name) (simp_all add: param_def)
next
  assume "n |\<in>| fmdom (new_params s)"
  then show "param env (PStr n) func args kwargs s =
               (Inl (ValueError ''parameter of name already exists''), s)"
    using assms by (simp add: param_def)
next
  assume "param env (PStr n) func args kwargs s = (Inr v, s')"
  then have "n |\<in>| fmdom (new_params s')" and "\<not> got_reward s'"
    by (rule param_declares)+
  then show "param env (PStr n) func' args' kwargs' s' =
               (Inl (ValueError ''parameter of name already exists''), s')"
    by (simp add: param_def)
qed

text \<open>The name \<open>5\<close>, the declared name \<open>x\<close>, and the name \<open>z\<close> declared twice.\<close>

theorem param_name_checked_witness:
  "\<not> got_reward (sample_optimizer RandomBackend [] fmempty ''x'')
   \<and> (\<forall>n. PInt 5 \<noteq> PStr n)
   \<and> fst (param sample_env (PInt 5) ''uniform'' [PInt 0, PInt 1] fmempty
         (sample_optimizer RandomBackend [] fmempty ''x''))
       = Inl (TypeError ''name must be a string'')
   \<and> ''x'' |\<in>| fmdom (new_params (sample_optimizer RandomBackend [] fmempty ''x''))
   \<and> fst (param sample_env (PStr ''x'') ''uniform'' [PInt 0, PInt 1] fmempty
         (sample_optimizer RandomBackend [] fmempty ''x''))
       = Inl (ValueError ''parameter of name already exists'')
   \<and> fst (param sample_env (PStr ''z'') ''uniform'' [PInt 0, PInt 1] fmempty
         (sample_optimizer RandomBackend [] fmempty ''x''))
       = Inr (PFloat (1 / 2))
   \<and> fst (param sample_env (PStr ''z'') ''uniform'' [PInt 0, PInt 1] fmempty
         (snd (param sample_env (PStr ''z'') ''uniform'' [PInt 0, PInt 1] fmempty
            (sample_optimizer RandomBackend [] fmempty ''x''))))
       = Inl (ValueError ''parameter of name already exists'')"
proof -
  let ?s = "sample_optimizer RandomBackend [] fmempty ''x''"
  let ?p = "param sample_env (PStr ''z'') ''uniform'' [PInt 0, PInt 1] fmempty ?s"
  have 1: "\<not> got_reward ?s" by code_simp
  have 2: "\<forall>n. PInt 5 \<noteq> PStr n" by simp
  have 3: "''x'' |\<in>| fmdom (new_params ?s)" by code_simp
  have 4: "fst ?p = Inr (PFloat (1 / 2))" by code_simp
  then have 5: "?p = (Inr (PFloat (1 / 2)), snd ?p)" by (metis prod.collapse)
  note th = param_name_checked [OF 1]
  show ?thesis
    using 1 2 3 4 5
      th [where name = "PInt 5" and env = sample_env and func = "''uniform''"
            and args = "[PInt 0, PInt 1]" and kwargs = fmempty and n = "''x''"]
      th [where env = sample_env and func = "''uniform''"
            and args = "[PInt 0, PInt 1]" and kwargs = fmempty and n = "''z''"
            and v = "PFloat (1 / 2)" and s' = "snd ?p" and func' = "''uniform''"
            and args' = "[PInt 0, PInt 1]" and kwargs' = fmempty]
    by simp
qed

text \<open>
  The claim as the spec states it is false for the empty name: the declaration of a
  parameter named \<^verbatim>\<open>""\<close> returns the value of the backend and records the parameter.
\<close>

theorem param_empty_name_counterexample:
  "fst (param sample_env (PStr []) ''uniform'' [PInt 0, PInt 1] fmempty
         (sample_optimizer RandomBackend [] fmempty ''x'')) = Inr (PFloat (1 / 2))
   \<and> fmlookup (new_params (snd (param sample_env (PStr []) ''uniform'' [PInt 0, PInt 1] fmempty
         (sample_optimizer RandomBackend [] fmempty ''x'')))) [] = Some uniform01"
  by code_simp

text \<open>
  C9. When no protocol is given (\<^verbatim>\<open>None\<close>), the session takes the default protocol if the
  data file of the JSON protocol does not exist, and JSON, the format of that file, if
  it exists; a protocol that is given is used as it is. With a default protocol that is
  a pickle protocol, a session without a JSON data file works on the pickle data file.
\<close>

theorem protocol_selection:
  assumes "init env (PStr f) proto w = (Inr s, w')"
  shows "protocol s =
           (if proto \<noteq> PNone then proto
            else if files w (splitext env (norm_path env f) @ data_file_ext env @ ''.json'') = None
              then default_protocol env
            else PStr ''json'')
       \<and> (proto = PNone \<and> default_protocol env \<noteq> PStr ''json'' \<longrightarrow>
            data_file env s =
              splitext env (norm_path env f) @ data_file_ext env @
                (if files w (splitext env (norm_path env f) @ data_file_ext env @ ''.json'') = None
                 then ''.pickle'' else ''.json''))"
proof -
  let ?a = "init_attributes env f proto w"
  have "reload env ?a w = (Inr (), s, w')"
    using assms by (auto simp: init_def Let_def split: prod.splits sum.splits)
  then have p: "protocol s = protocol ?a" and f: "file_path s = file_path ?a"
    by (rule reload_frame)+
  have a: "protocol ?a =
           (if proto \<noteq> PNone then proto
            else if files w (splitext env (norm_path env f) @ data_file_ext env @ ''.json'') = None
              then default_protocol env
            else PStr ''json'')"
    and fa: "file_path ?a = norm_path env f"
    by (simp_all add: init_attributes_def Let_def data_file_def use_json_def new_object_def)
  show ?thesis
    using p f a fa by (simp add: data_file_def use_json_def)
qed

text \<open>
  A first session on \<^verbatim>\<open>run.py\<close> with no data file yet, and a session that finds the JSON
  data file of an earlier one.
\<close>

theorem protocol_selection_witness:
  "\<not> isl (fst (init sample_env (PStr ''run.py'') PNone (sample_world None 0)))
   \<and> protocol (projr (fst (init sample_env (PStr ''run.py'') PNone (sample_world None 0))))
       = PInt 2
   \<and> data_file sample_env
        (projr (fst (init sample_env (PStr ''run.py'') PNone (sample_world None 0))))
       = ''run.bbopt.pickle''
   \<and> \<not> isl (fst (init sample_env (PStr ''run.py'') PNone
                 (sample_world (Some ''params=y,;examples=*'') 0)))
   \<and> protocol (projr (fst (init sample_env (PStr ''run.py'') PNone
                 (sample_world (Some ''params=y,;examples=*'') 0))))
       = PStr ''json''"
proof -
  let ?i = "init sample_env (PStr ''run.py'') PNone (sample_world None 0)"
  let ?j = "init sample_env (PStr ''run.py'') PNone (sample_world (Some ''params=y,;examples=*'') 0)"
  have 1: "\<not> isl (fst ?i)" by code_simp
  then have h: "?i = (Inr (projr (fst ?i)), snd ?i)"
    by (metis prod.collapse sum.collapse(2))
  have 2: "files (sample_world None 0)
             (splitext sample_env (norm_path sample_env ''run.py'') @ data_file_ext sample_env @ ''.json'')
           = None"
    by code_simp
  have 3: "default_protocol sample_env = PInt 2"
    and 4: "splitext sample_env (norm_path sample_env ''run.py'') @ data_file_ext sample_env = ''run.bbopt''"
    by code_simp+
  have 5: "\<not> isl (fst ?j)" by code_simp
  then have k: "?j = (Inr (projr (fst ?j)), snd ?j)"
    by (metis prod.collapse sum.collapse(2))
  have 6: "files (sample_world (Some ''params=y,;examples=*'') 0)
             (splitext sample_env (norm_path sample_env ''run.py'') @ data_file_ext sample_env @ ''.json'')
           \<noteq> None"
    by code_simp
  show ?thesis
    using 1 2 3 4 5 6 protocol_selection [OF h] protocol_selection [OF k] by simp
qed

text \<open>
  C8. Setting a reward rejects an array of rank greater than 1 with \<^verbatim>\<open>ValueError\<close> and
  changes nothing; an array of one dimension is stored in the current example as the
  tuple of its entries as plain numbers, and a numeric-array scalar as a plain number.
\<close>

theorem reward_validated_and_normalised:
  assumes "\<not> got_reward s" and "reward_type = ''loss'' \<or> reward_type = ''gain''"
  shows "(1 < length sh \<longrightarrow>
            set_reward env reward_type (PNdarray sh ds) s w =
              (Inl (ValueError ''gain/loss must be a scalar or 1-dimensional array''), s, w))
       \<and> fmlookup (current_example (fst (snd (set_reward env reward_type (PNdarray [n] ds) s w))))
            reward_type = Some (PTuple (map denumpy (take n ds)))
       \<and> fmlookup (current_example (fst (snd (set_reward env reward_type (PNpScalar x) s w))))
            reward_type = Some (denumpy x)"
proof -
  have nt: "reward_type \<noteq> ''timestamp''" using assms(2) by auto
  have stored: "fmlookup (current_example (fst (snd (save_data env s1 w)))) reward_type
                = fmlookup (current_example s1) reward_type" for s1
    using save_data_lookup [of env s1 w "fst (save_data env s1 w)"
        "fst (snd (save_data env s1 w))" "snd (snd (save_data env s1 w))" reward_type] nt
    by simp
  have 1: "1 < length sh \<longrightarrow>
            set_reward env reward_type (PNdarray sh ds) s w =
              (Inl (ValueError ''gain/loss must be a scalar or 1-dimensional array''), s, w)"
    using assms(1) by (simp add: set_reward_def)
  have 2: "fmlookup (current_example (fst (snd (set_reward env reward_type (PNdarray [n] ds) s w))))
            reward_type = Some (PTuple (map denumpy (take n ds)))"
    using assms(1) stored
    by (simp add: set_reward_def py_iter_def Let_def comp_def)
  have 3: "fmlookup (current_example (fst (snd (set_reward env reward_type (PNpScalar x) s w))))
            reward_type = Some (denumpy x)"
    using assms(1) stored by (simp add: set_reward_def Let_def)
  show ?thesis using 1 2 3 by blast
qed

text \<open>
  Under the random backend, with an empty data file: an array of shape \<open>2 \<times> 2\<close>, an array
  of two entries and the scalar \<open>3.0\<close>.
\<close>

theorem reward_validated_and_normalised_witness:
  "\<not> got_reward (sample_optimizer RandomBackend [] fmempty ''x'')
   \<and> 1 < length [2, 2 :: nat]
   \<and> fst (set_reward sample_env ''loss'' (PNdarray [2, 2] [NpInt 1, NpInt 2, NpInt 3, NpInt 4])
         (sample_optimizer RandomBackend [] fmempty ''x'') (sample_world (Some []) 11))
       = Inl (ValueError ''gain/loss must be a scalar or 1-dimensional array'')
   \<and> fmlookup (current_example (fst (snd
         (set_reward sample_env ''loss'' (PNdarray [2] [NpFloat 3, NpInt 4])
            (sample_optimizer RandomBackend [] fmempty ''x'') (sample_world (Some []) 11)))))
         ''loss'' = Some (PTuple [PFloat 3, PInt 4])
   \<and> fmlookup (current_example (fst (snd
         (set_reward sample_env ''loss'' (PNpScalar (NpFloat 3))
            (sample_optimizer RandomBackend [] fmempty ''x'') (sample_world (Some []) 11)))))
         ''loss'' = Some (PFloat 3)"
proof -
  let ?s = "sample_optimizer RandomBackend [] fmempty ''x''"
  have 1: "\<not> got_reward ?s" by code_simp
  show ?thesis
    using 1
      reward_validated_and_normalised [OF 1 disjI1 [OF refl],
        where sh = "[2, 2]" and ds = "[NpInt 1, NpInt 2, NpInt 3, NpInt 4]"
          and env = sample_env and w = "sample_world (Some []) 11"]
      reward_validated_and_normalised [OF 1 disjI1 [OF refl],
        where n = 2 and ds = "[NpFloat 3, NpInt 4]" and x = "NpFloat 3"
          and env = sample_env and w = "sample_world (Some []) 11"]
    by (simp add: denumpy_def)
qed

text \<open>
  C4. Setting a reward commits to the data file if and only if the backend is not the
  serving one: with a backend that is not the serving one the call is the commit of the
  current example with its reward, which takes the lock of the data file; with the
  serving backend the call leaves the world, hence the data file, and the stored list
  of examples as they are.
\<close>

theorem commit_iff_not_serving:
  assumes "\<not> got_reward s"
    and "\<forall>sh ds. v = PNdarray sh ds \<longrightarrow> length sh = 1"
    and "''timestamp'' |\<notin>| fmdom (current_example s)" and "reward_type \<noteq> ''timestamp''"
    and "files w (data_file env s) \<noteq> None" and "data_file env s \<notin> locked w"
  shows "((\<exists>tr. trace (snd (snd (set_reward env reward_type v s w))) =
                  trace w @ Acquire (data_file env s) # TimeRead (clock w) # tr)
            \<longleftrightarrow> \<not> is_serving s)
       \<and> (\<not> is_serving s \<longrightarrow>
            (\<exists>v'. set_reward env reward_type v s w =
                    save_data env (s\<lparr>current_example := fmupd reward_type v' (current_example s)\<rparr>) w))
       \<and> (is_serving s \<longrightarrow>
            fst (set_reward env reward_type v s w) = Inr ()
            \<and> snd (snd (set_reward env reward_type v s w)) = w
            \<and> examples (fst (snd (set_reward env reward_type v s w))) = examples s)"
proof -
  obtain v' where v': "(case v of
                 PNdarray sh ds \<Rightarrow>
                   (if length sh \<noteq> 1 then
                      Inl (ValueError ''gain/loss must be a scalar or 1-dimensional array'')
                    else (case py_iter v of Inl e \<Rightarrow> Inl e | Inr xs \<Rightarrow> Inr (PTuple xs)))
               | _ \<Rightarrow> Inr v) = Inr v'"
    using assms(2)
    by (cases v) (auto simp: py_iter_def length_Suc_conv)
  let ?s1 = "s\<lparr>current_example := fmupd reward_type (denumpy_all v') (current_example s)\<rparr>"
  have sr: "set_reward env reward_type v s w =
              (if \<not> is_serving s then save_data env ?s1 w else (Inr (), ?s1, w))"
    using assms(1) v' by (simp add: set_reward_def Let_def)
  have "''timestamp'' |\<notin>| fmdom (current_example ?s1)"
    using assms(3,4) by auto
  then have tr: "\<exists>tr. trace (snd (snd (save_data env ?s1 w))) =
                  trace w @ Acquire (data_file env s) # TimeRead (clock w) # tr"
    using save_data_trace [of ?s1 w env] assms(5,6) by simp
  show ?thesis
  proof (cases "is_serving s")
    case True
    then show ?thesis using sr by simp
  next
    case False
    then show ?thesis using sr tr by auto
  qed
qed

text \<open>The same reward under the random backend and under the serving backend.\<close>

theorem commit_iff_not_serving_witness:
  "\<not> got_reward (sample_optimizer RandomBackend [] fmempty ''x'')
   \<and> \<not> is_serving (sample_optimizer RandomBackend [] fmempty ''x'')
   \<and> is_serving (sample_optimizer ServingBackend [] fmempty ''x'')
   \<and> (\<exists>tr. trace (snd (snd (set_reward sample_env ''loss'' (PFloat 3)
                (sample_optimizer RandomBackend [] fmempty ''x'') (sample_world (Some []) 11))))
            = trace (sample_world (Some []) 11) @
                Acquire (data_file sample_env (sample_optimizer RandomBackend [] fmempty ''x''))
                # TimeRead (clock (sample_world (Some []) 11)) # tr)
   \<and> snd (snd (set_reward sample_env ''loss'' (PFloat 3)
         (sample_optimizer ServingBackend [] fmempty ''x'') (sample_world (Some []) 11)))
       = sample_world (Some []) 11
   \<and> examples (fst (snd (set_reward sample_env ''loss'' (PFloat 3)
         (sample_optimizer ServingBackend [] fmempty ''x'') (sample_world (Some []) 11))))
       = examples (sample_optimizer ServingBackend [] fmempty ''x'')"
proof -
  let ?r = "sample_optimizer RandomBackend [] fmempty ''x''"
  let ?v = "sample_optimizer ServingBackend [] fmempty ''x''"
  let ?w = "sample_world (Some []) 11"
  have r: "\<not> got_reward ?r" "''timestamp'' |\<notin>| fmdom (current_example ?r)"
    "files ?w (data_file sample_env ?r) \<noteq> None" "data_file sample_env ?r \<notin> locked ?w"
    "\<not> is_serving ?r"
    by code_simp+
  have v: "\<not> got_reward ?v" "''timestamp'' |\<notin>| fmdom (current_example ?v)"
    "files ?w (data_file sample_env ?v) \<noteq> None" "data_file sample_env ?v \<notin> locked ?w"
    "is_serving ?v"
    by code_simp+
  have a: "\<forall>sh ds. PFloat 3 = PNdarray sh ds \<longrightarrow> length sh = 1" and b: "''loss'' \<noteq> ''timestamp''"
    by simp_all
  show ?thesis
    using r(1,5) v(5)
      commit_iff_not_serving [OF r(1) a r(2) b r(3) r(4)]
      commit_iff_not_serving [OF v(1) a v(2) b v(3) v(4)]
    by simp
qed




end
